theory Spec2Isabelle
  imports Complex_Main "HOL-Library.Char_ord" "HOL-Library.List_Lexorder"
begin

section \<open>Data model\<close>

text \<open>
  The dashboard script \<^verbatim>\<open>app.py\<close> reads three tables and derives every number it
  shows from them with dataframe operations. A dataframe is modelled as the list of its
  rows, in row order; a row is a record with one field per column. Identifiers and
  quantities are integers and prices are exact rational numbers.

  A \<^verbatim>\<open>transactionid\<close> cell may be NULL, which is the value \<open>None\<close>: the script
  applies \<^verbatim>\<open>count\<close> and \<^verbatim>\<open>nunique\<close> to this column, and both leave
  NULL cells out. The join keys, the quantities and the prices are present in every row.

  A \<^verbatim>\<open>transactiondate\<close> cell is either a datetime value or an object that has not
  been parsed yet (a string): both occur in the script, which calls
  \<^verbatim>\<open>pd.to_datetime\<close> on the column and also uses the \<^verbatim>\<open>.dt\<close> accessor on
  it before that conversion.
\<close>

record timestamp =
  year :: nat
  month :: nat
  day :: nat
  hour :: nat
  minute :: nat
  second :: nat

type_synonym date = "nat \<times> nat \<times> nat"

datatype cell = Datetime timestamp | Object string

datatype error = AttributeError | ValueError | TypeError

record sales_row =
  transactionid :: "int option"
  productid :: int
  customerid :: int
  quantitypurchased :: int
  price :: rat
  transactiondate :: cell

record customers_row =
  customerid :: int
  age :: int
  gender :: string
  location :: string

record inventory_row =
  productid :: int
  productname :: string
  category :: string
  price :: rat

text \<open>
  The result of \<^verbatim>\<open>pd.merge(sales, inventory, on="productid")\<close>. Both tables have a
  column \<^verbatim>\<open>price\<close> that is not the join key, so the merge renames them with its
  default suffixes: \<^verbatim>\<open>_x\<close> for the column of the left table (sales) and
  \<^verbatim>\<open>_y\<close> for the column of the right table (inventory).
\<close>

record sales_inventory_row =
  transactionid :: "int option"
  productid :: int
  customerid :: int
  quantitypurchased :: int
  price_x :: rat
  transactiondate :: cell
  productname :: string
  category :: string
  price_y :: rat

record merged_row =
  transactionid :: "int option"
  productid :: int
  customerid :: int
  quantitypurchased :: int
  price_x :: rat
  transactiondate :: cell
  productname :: string
  category :: string
  price_y :: rat
  age :: int
  gender :: string
  location :: string

text \<open>
  The tables the script derives: product performance (line 71), the customer aggregate
  (line 85), the customer segments (line 100), the active days of a customer (line 124),
  the loyalty pairs (line 143) and the monthly revenue (line 161).
\<close>

record product_perf_row =
  productname :: string
  total_units_sold :: int
  total_revenue :: rat

record cust_seg_row =
  customerid :: int
  total_orders :: nat
  total_spent :: rat
  age :: int
  gender :: string
  location :: string

record customer_segments_row =
  customerid :: int
  total_orders :: nat
  customer_segment :: string

record repeat_customers_row =
  customerid :: int
  active_days :: nat

record repeat_row =
  customerid :: int
  days_active :: nat
  total_orders :: nat

record monthly_row =
  month :: string
  monthly_revenue :: rat

section \<open>Dataframe operations\<close>

text \<open>
  \<^verbatim>\<open>pd.merge(left, right, on=key)\<close> is an inner join: one output row for every pair
  of a left row and a right row with the same key, in the order of the left rows, and no
  row for a left row without a partner.
\<close>

definition merge :: "('l \<Rightarrow> 'k) \<Rightarrow> ('r \<Rightarrow> 'k) \<Rightarrow> ('l \<Rightarrow> 'r \<Rightarrow> 'm) \<Rightarrow> 'l list \<Rightarrow> 'r list \<Rightarrow> 'm list" where
  "merge lkey rkey row left right =
     concat (map (\<lambda>l. map (row l) (filter (\<lambda>r. rkey r = lkey l) right)) left)"

text \<open>
  \<^verbatim>\<open>Series.count()\<close>, and \<^verbatim>\<open>count\<close> as an aggregate of a group: the
  number of cells that are not NULL.
\<close>

definition count :: "'a option list \<Rightarrow> nat" where
  "count col = length (filter (\<lambda>c. c \<noteq> None) col)"

text \<open>The values of the cells of a column that are not NULL.\<close>

fun dropna :: "'a option list \<Rightarrow> 'a list" where
  "dropna [] = []"
| "dropna (None # col) = dropna col"
| "dropna (Some v # col) = v # dropna col"

text \<open>
  \<^verbatim>\<open>Series.nunique()\<close>: the number of distinct values of a column. On a column
  with NULL cells it is taken after \<open>dropna\<close> (\<^verbatim>\<open>dropna=True\<close> is the default).
\<close>

definition nunique :: "'a list \<Rightarrow> nat" where
  "nunique xs = length (remdups xs)"

text \<open>
  \<^verbatim>\<open>df.groupby(key)\<close>: one group per distinct key, the groups ordered by key
  ascending (\<^verbatim>\<open>sort=True\<close> is the default), the rows of a group in their order in
  the frame.
\<close>

definition groupby :: "('r \<Rightarrow> 'k::linorder) \<Rightarrow> 'r list \<Rightarrow> ('k \<times> 'r list) list" where
  "groupby key df = map (\<lambda>k. (k, filter (\<lambda>r. key r = k) df)) (sort (remdups (map key df)))"

section \<open>The merged table\<close>

definition join_inventory :: "sales_row \<Rightarrow> inventory_row \<Rightarrow> sales_inventory_row" where
  "join_inventory s i =
     \<lparr> sales_inventory_row.transactionid = sales_row.transactionid s,
       sales_inventory_row.productid = sales_row.productid s,
       sales_inventory_row.customerid = sales_row.customerid s,
       sales_inventory_row.quantitypurchased = sales_row.quantitypurchased s,
       sales_inventory_row.price_x = sales_row.price s,
       sales_inventory_row.transactiondate = sales_row.transactiondate s,
       sales_inventory_row.productname = inventory_row.productname i,
       sales_inventory_row.category = inventory_row.category i,
       sales_inventory_row.price_y = inventory_row.price i \<rparr>"

definition join_customers :: "sales_inventory_row \<Rightarrow> customers_row \<Rightarrow> merged_row" where
  "join_customers m c =
     \<lparr> merged_row.transactionid = sales_inventory_row.transactionid m,
       merged_row.productid = sales_inventory_row.productid m,
       merged_row.customerid = sales_inventory_row.customerid m,
       merged_row.quantitypurchased = sales_inventory_row.quantitypurchased m,
       merged_row.price_x = sales_inventory_row.price_x m,
       merged_row.transactiondate = sales_inventory_row.transactiondate m,
       merged_row.productname = sales_inventory_row.productname m,
       merged_row.category = sales_inventory_row.category m,
       merged_row.price_y = sales_inventory_row.price_y m,
       merged_row.age = customers_row.age c,
       merged_row.gender = customers_row.gender c,
       merged_row.location = customers_row.location c \<rparr>"

text \<open>
  Lines 55 to 57 of the script: the two merges, then the rows whose category is one of
  the selected ones (\<^verbatim>\<open>merged[merged["category"].isin(category_filter)]\<close>).
\<close>

definition merge_inventory :: "sales_row list \<Rightarrow> inventory_row list \<Rightarrow> sales_inventory_row list" where
  "merge_inventory sales inventory =
     merge sales_row.productid inventory_row.productid join_inventory sales inventory"

definition merge_customers :: "sales_inventory_row list \<Rightarrow> customers_row list \<Rightarrow> merged_row list" where
  "merge_customers df customers =
     merge sales_inventory_row.customerid customers_row.customerid join_customers df customers"

definition merged :: "sales_row list \<Rightarrow> inventory_row list \<Rightarrow> customers_row list \<Rightarrow> string list \<Rightarrow> merged_row list" where
  "merged sales inventory customers category_filter =
     filter (\<lambda>r. merged_row.category r \<in> set category_filter)
       (merge_customers (merge_inventory sales inventory) customers)"

section \<open>Key metrics\<close>

definition total_revenue :: "merged_row list \<Rightarrow> rat" where
  "total_revenue df =
     sum_list (map (\<lambda>r. of_int (merged_row.quantitypurchased r) * merged_row.price_x r) df)"

definition total_orders :: "merged_row list \<Rightarrow> nat" where
  "total_orders df = nunique (dropna (map merged_row.transactionid df))"

definition total_customers :: "merged_row list \<Rightarrow> nat" where
  "total_customers df = nunique (map merged_row.customerid df)"

section \<open>Product performance\<close>

text \<open>
  Lines 71 to 74. The revenue aggregate receives the \<^verbatim>\<open>price_x\<close> column of a group
  and multiplies it with \<^verbatim>\<open>merged.loc[x.index, "quantitypurchased"]\<close>: the quantities
  of the same rows, since the index labels of the merged frame are distinct (a merge
  numbers its rows afresh, and the category filter only removes rows).
\<close>

definition product_perf :: "merged_row list \<Rightarrow> product_perf_row list" where
  "product_perf df =
     map (\<lambda>(k, g).
        \<lparr> product_perf_row.productname = k,
          product_perf_row.total_units_sold = sum_list (map merged_row.quantitypurchased g),
          product_perf_row.total_revenue =
            sum_list (map (\<lambda>r. merged_row.price_x r * of_int (merged_row.quantitypurchased r)) g) \<rparr>)
       (groupby merged_row.productname df)"

section \<open>Customer aggregate\<close>


section \<open>Customer segments by frequency\<close>

text \<open>The classifier of lines 105 to 107, on any integer.\<close>

definition segment :: "int \<Rightarrow> string" where
  "segment x =
     (if x = 0 then ''Inactive''
      else if x \<le> 5 then ''Low''
      else if x \<le> 7 then ''Medium''
      else ''High'')"

text \<open>
  Lines 100 to 108: the raw sales table grouped by customer, the cells of
  \<^verbatim>\<open>transactionid\<close> that are not NULL counted, the count classified.
\<close>

definition customer_segments :: "sales_row list \<Rightarrow> customer_segments_row list" where
  "customer_segments sales =
     map (\<lambda>(k, g).
        \<lparr> customer_segments_row.customerid = k,
          customer_segments_row.total_orders = count (map sales_row.transactionid g),
          customer_segments_row.customer_segment =
            segment (int (count (map sales_row.transactionid g))) \<rparr>)
       (groupby sales_row.customerid sales)"

section \<open>Dates\<close>

text \<open>
  An aggregate that fails for one group fails for the whole \<^verbatim>\<open>agg\<close> call: the
  results of the groups are collected up to the first error.
\<close>

fun sequence :: "(error + 'a) list \<Rightarrow> error + 'a list" where
  "sequence [] = Inr []"
| "sequence (x # xs) =
     (case x of
        Inl e \<Rightarrow> Inl e
      | Inr v \<Rightarrow> (case sequence xs of Inl e \<Rightarrow> Inl e | Inr vs \<Rightarrow> Inr (v # vs)))"

text \<open>
  \<^verbatim>\<open>x.dt.date\<close>: the calendar date of every value of a datetime series. On a series
  that is not of datetime type the accessor \<^verbatim>\<open>.dt\<close> raises AttributeError.
\<close>

fun date_of_cell :: "cell \<Rightarrow> error + date" where
  "date_of_cell (Datetime t) = Inr (year t, timestamp.month t, day t)"
| "date_of_cell (Object s) = Inl AttributeError"

definition dt_date :: "cell list \<Rightarrow> error + date list" where
  "dt_date x = sequence (map date_of_cell x)"

text \<open>The aggregate \<^verbatim>\<open>lambda x: x.dt.date.nunique()\<close> of lines 125 and 144.\<close>

definition dt_date_nunique :: "cell list \<Rightarrow> error + nat" where
  "dt_date_nunique x = (case dt_date x of Inl e \<Rightarrow> Inl e | Inr ds \<Rightarrow> Inr (nunique ds))"

text \<open>
  \<^verbatim>\<open>pd.to_datetime\<close> on the \<^verbatim>\<open>transactiondate\<close> column of a frame: a datetime
  value stays as it is, an object is parsed, and a value that does not parse raises
  ValueError. The parser of the library is a parameter.
\<close>

fun to_datetime_cell :: "(string \<Rightarrow> timestamp option) \<Rightarrow> cell \<Rightarrow> error + cell" where
  "to_datetime_cell parse (Datetime t) = Inr (Datetime t)"
| "to_datetime_cell parse (Object s) =
     (case parse s of None \<Rightarrow> Inl ValueError | Some t \<Rightarrow> Inr (Datetime t))"

definition to_datetime :: "(string \<Rightarrow> timestamp option) \<Rightarrow> sales_row list \<Rightarrow> error + sales_row list" where
  "to_datetime parse df =
     sequence (map (\<lambda>s.
        case to_datetime_cell parse (sales_row.transactiondate s) of
          Inl e \<Rightarrow> Inl e
        | Inr c \<Rightarrow> Inr (s\<lparr>sales_row.transactiondate := c\<rparr>)) df)"

section \<open>Repeat customers and loyalty\<close>

text \<open>Lines 124 to 126: the active days of every customer of the raw sales table.\<close>

definition active_days_agg :: "sales_row list \<Rightarrow> error + repeat_customers_row list" where
  "active_days_agg sales =
     sequence (map (\<lambda>(k, g).
        case dt_date_nunique (map sales_row.transactiondate g) of
          Inl e \<Rightarrow> Inl e
        | Inr n \<Rightarrow> Inr \<lparr> repeat_customers_row.customerid = k, active_days = n \<rparr>)
       (groupby sales_row.customerid sales))"

text \<open>Line 128: the customers with more than one active day.\<close>

definition repeat_customers :: "sales_row list \<Rightarrow> error + repeat_customers_row list" where
  "repeat_customers sales =
     (case active_days_agg sales of
        Inl e \<Rightarrow> Inl e
      | Inr df \<Rightarrow> Inr (filter (\<lambda>r. active_days r > 1) df))"

text \<open>Lines 141 to 146: the loyalty pairs, computed on a converted copy of the sales.\<close>

definition repeat :: "(string \<Rightarrow> timestamp option) \<Rightarrow> sales_row list \<Rightarrow> error + repeat_row list" where
  "repeat parse sales =
     (case to_datetime parse sales of
        Inl e \<Rightarrow> Inl e
      | Inr loyalty_df \<Rightarrow>
          sequence (map (\<lambda>(k, g).
             case dt_date_nunique (map sales_row.transactiondate g) of
               Inl e \<Rightarrow> Inl e
             | Inr n \<Rightarrow>
                 Inr \<lparr> repeat_row.customerid = k, days_active = n,
                       repeat_row.total_orders = count (map sales_row.transactionid g) \<rparr>)
            (groupby sales_row.customerid loyalty_df)))"

section \<open>Monthly revenue\<close>

text \<open>
  \<^verbatim>\<open>.dt.to_period("M").astype(str)\<close>: the year and the month of a timestamp as
  \<^verbatim>\<open>YYYY-MM\<close>, both padded with zeros.
\<close>

definition digit :: "nat \<Rightarrow> char" where
  "digit d = ''0123456789'' ! (d mod 10)"

fun str_nat :: "nat \<Rightarrow> string" where
  "str_nat n = (if n < 10 then [digit n] else str_nat (n div 10) @ [digit n])"

definition zfill :: "nat \<Rightarrow> string \<Rightarrow> string" where
  "zfill w s = replicate (w - length s) (CHR ''0'') @ s"

definition period_M_str :: "timestamp \<Rightarrow> string" where
  "period_M_str t = zfill 4 (str_nat (year t)) @ ''-'' @ zfill 2 (str_nat (timestamp.month t))"

fun month_of_cell :: "cell \<Rightarrow> error + string" where
  "month_of_cell (Datetime t) = Inr (period_M_str t)"
| "month_of_cell (Object s) = Inl AttributeError"

text \<open>
  Lines 155 to 163. The sales with their new \<^verbatim>\<open>month\<close> column are pairs of the
  month and the row; the revenue of a month multiplies the quantity with the
  \<^verbatim>\<open>price\<close> column of the sales table. On a frame without rows
  \<^verbatim>\<open>groupby(...).apply\<close> returns a frame, not a series, and
  \<^verbatim>\<open>reset_index(name=...)\<close> of a frame raises TypeError.
\<close>

definition with_month :: "sales_row list \<Rightarrow> error + (string \<times> sales_row) list" where
  "with_month df =
     sequence (map (\<lambda>s.
        case month_of_cell (sales_row.transactiondate s) of
          Inl e \<Rightarrow> Inl e
        | Inr m \<Rightarrow> Inr (m, s)) df)"

definition monthly :: "(string \<Rightarrow> timestamp option) \<Rightarrow> sales_row list \<Rightarrow> error + monthly_row list" where
  "monthly parse sales =
     (case to_datetime parse sales of
        Inl e \<Rightarrow> Inl e
      | Inr sales' \<Rightarrow>
          (case with_month sales' of
             Inl e \<Rightarrow> Inl e
           | Inr df \<Rightarrow>
               if df = [] then Inl TypeError
               else
                 Inr (map (\<lambda>(k, g).
                        \<lparr> monthly_row.month = k,
                          monthly_revenue =
                            sum_list (map (\<lambda>(m, s).
                              of_int (sales_row.quantitypurchased s) * sales_row.price s) g) \<rparr>)
                      (groupby fst df))))"

section \<open>Auxiliary definitions\<close>

text \<open>
  The rows that one sale contributes to the merged table: one for every inventory row
  with its product (and a selected category) and every customer row with its customer.
\<close>

definition rows_of_sale :: "sales_row \<Rightarrow> inventory_row list \<Rightarrow> customers_row list \<Rightarrow> string list \<Rightarrow> merged_row list" where
  "rows_of_sale s inventory customers cf =
     concat (map (\<lambda>i. map (join_customers (join_inventory s i))
                          (filter (\<lambda>c. customers_row.customerid c = sales_row.customerid s) customers))
       (filter (\<lambda>i. inventory_row.productid i = sales_row.productid s \<and> inventory_row.category i \<in> set cf) inventory))"

text \<open>
  A column has datetime type when every value of it is a datetime; \<open>dates\<close> are the
  calendar dates of the datetime values of a column.
\<close>

definition is_datetime64 :: "cell list \<Rightarrow> bool" where
  "is_datetime64 col = list_all (\<lambda>c. case c of Datetime t \<Rightarrow> True | Object s \<Rightarrow> False) col"

fun dates :: "cell list \<Rightarrow> date list" where
  "dates [] = []"
| "dates (Datetime t # cs) = (year t, timestamp.month t, day t) # dates cs"
| "dates (Object s # cs) = dates cs"

text \<open>Small tables on which the definitions are evaluated. A timestamp at midnight:\<close>

definition stamp :: "nat \<Rightarrow> nat \<Rightarrow> nat \<Rightarrow> cell" where
  "stamp y m d = Datetime \<lparr> year = y, month = m, day = d, hour = 0, minute = 0, second = 0 \<rparr>"

definition sale :: "int \<Rightarrow> int \<Rightarrow> int \<Rightarrow> int \<Rightarrow> rat \<Rightarrow> cell \<Rightarrow> sales_row" where
  "sale t p c q pr d =
     \<lparr> sales_row.transactionid = Some t, sales_row.productid = p, sales_row.customerid = c,
       sales_row.quantitypurchased = q, sales_row.price = pr, sales_row.transactiondate = d \<rparr>"

definition inventory_ex :: "inventory_row list" where
  "inventory_ex =
     [\<lparr> inventory_row.productid = 1, inventory_row.productname = ''Pen'',
        inventory_row.category = ''Office'', inventory_row.price = 7 \<rparr>]"

definition customers_ex :: "customers_row list" where
  "customers_ex =
     [\<lparr> customers_row.customerid = 1, customers_row.age = 30,
        customers_row.gender = ''F'', customers_row.location = ''Pune'' \<rparr>]"

definition sales_ex :: "sales_row list" where
  "sales_ex = [sale 1 1 1 2 10 (stamp 2024 3 5), sale 2 1 1 1 5 (stamp 2024 3 28)]"


text \<open>The calendar dates on which a customer has a transaction.\<close>

abbreviation active_dates :: "sales_row list \<Rightarrow> int \<Rightarrow> date set" where
  "active_dates sales c \<equiv>
     {d. \<exists>s \<in> set sales. sales_row.customerid s = c \<and> date_of_cell (sales_row.transactiondate s) = Inr d}"

text \<open>
  Customer 1 buys on two days; customer 2 buys twice on one day, at different hours.
\<close>

definition repeat_ex :: "sales_row list" where
  "repeat_ex =
     [sale 1 1 1 2 10 (stamp 2024 3 5), sale 2 1 1 1 5 (stamp 2024 3 28),
      sale 3 1 2 1 5 (Datetime \<lparr> year = 2024, month = 3, day = 9, hour = 8, minute = 30, second = 0 \<rparr>),
      sale 4 1 2 3 5 (Datetime \<lparr> year = 2024, month = 3, day = 9, hour = 17, minute = 0, second = 0 \<rparr>)]"

text \<open>A sale of customer 7 whose transaction id is NULL.\<close>

definition null_sale :: sales_row where
  "null_sale =
     \<lparr> sales_row.transactionid = None, sales_row.productid = 1, sales_row.customerid = 7,
       sales_row.quantitypurchased = 1, sales_row.price = 10,
       sales_row.transactiondate = stamp 2024 3 5 \<rparr>"

section \<open>The inner joins\<close>

lemma merge_Nil [simp]: "merge lk rk row [] right = []"
  by (simp add: merge_def)

lemma merge_Cons: "merge lk rk row (l # left) right =
    map (row l) (filter (\<lambda>r. rk r = lk l) right) @ merge lk rk row left right"
  by (simp add: merge_def)

lemma merge_append: "merge lk rk row (xs @ ys) right = merge lk rk row xs right @ merge lk rk row ys right"
  by (simp add: merge_def)

lemma merged_Nil [simp]: "merged [] inventory customers cf = []"
  by (simp add: merged_def merge_inventory_def merge_customers_def)

lemma merged_Cons:
  "merged (s # sales) inventory customers cf =
     rows_of_sale s inventory customers cf @ merged sales inventory customers cf"
proof -
  have cust: "merge sales_inventory_row.customerid customers_row.customerid join_customers
          (map (join_inventory s) xs) customers =
        concat (map (\<lambda>i. map (join_customers (join_inventory s i))
                          (filter (\<lambda>c. customers_row.customerid c = sales_row.customerid s) customers)) xs)" for xs
    by (simp add: merge_def join_inventory_def comp_def)
  have flt: "filter (\<lambda>r. merged_row.category r \<in> set cf)
          (concat (map (\<lambda>i. map (join_customers (join_inventory s i)) cs) xs)) =
        concat (map (\<lambda>i. map (join_customers (join_inventory s i)) cs)
          (filter (\<lambda>i. inventory_row.category i \<in> set cf) xs))" for xs cs
    by (induction xs) (simp_all add: join_customers_def join_inventory_def)
  show ?thesis
    by (simp add: merged_def merge_inventory_def merge_customers_def merge_Cons merge_append
        cust flt rows_of_sale_def)
qed



lemma rows_of_sale_fields:
  assumes "r \<in> set (rows_of_sale s inventory customers cf)"
  shows "merged_row.quantitypurchased r = sales_row.quantitypurchased s"
    and "merged_row.price_x r = sales_row.price s"
    and "merged_row.transactionid r = sales_row.transactionid s"
    and "merged_row.customerid r = sales_row.customerid s"
    and "merged_row.productid r = sales_row.productid s"
    and "merged_row.category r \<in> inventory_row.category ` set inventory \<inter> set cf"
  using assms by (auto simp: rows_of_sale_def join_customers_def join_inventory_def)

lemma length_rows_of_sale:
  "length (rows_of_sale s inventory customers cf) =
     length (filter (\<lambda>i. inventory_row.productid i = sales_row.productid s \<and>
                          inventory_row.category i \<in> set cf) inventory) *
     length (filter (\<lambda>c. customers_row.customerid c = sales_row.customerid s) customers)"
  by (simp add: rows_of_sale_def length_concat comp_def sum_list_triv)



lemma filter_productname_rows_of_sale:
  "filter (\<lambda>r. merged_row.productname r = k) (rows_of_sale s inventory customers cf) =
     rows_of_sale s (filter (\<lambda>i. inventory_row.productname i = k) inventory) customers cf"
proof -
  have "filter (\<lambda>r. merged_row.productname r = k)
          (concat (map (\<lambda>i. map (join_customers (join_inventory s i)) cs) xs)) =
        concat (map (\<lambda>i. map (join_customers (join_inventory s i)) cs)
          (filter (\<lambda>i. inventory_row.productname i = k) xs))" for xs cs
    by (induction xs) (simp_all add: join_customers_def join_inventory_def)
  then show ?thesis
    by (simp add: rows_of_sale_def conj_commute)
qed

lemma sum_rows_of_sale:
  "(\<Sum>r\<leftarrow>rows_of_sale s inventory customers cf.
       of_int (merged_row.quantitypurchased r) * merged_row.price_x r) =
     of_int (sales_row.quantitypurchased s) * sales_row.price s *
       of_nat (length (rows_of_sale s inventory customers cf))"
proof -
  have "(\<Sum>r\<leftarrow>rows_of_sale s inventory customers cf.
           of_int (merged_row.quantitypurchased r) * merged_row.price_x r) =
        (\<Sum>r\<leftarrow>rows_of_sale s inventory customers cf.
           of_int (sales_row.quantitypurchased s) * sales_row.price s)"
    by (rule arg_cong [where f = sum_list], rule map_cong) (simp_all add: rows_of_sale_fields)
  also have "\<dots> = of_int (sales_row.quantitypurchased s) * sales_row.price s *
       of_nat (length (rows_of_sale s inventory customers cf))"
    by (simp add: sum_list_triv)
  finally show ?thesis .
qed

lemma merged_subset_inventory_category:
  "r \<in> set (merged sales inventory customers cf) \<Longrightarrow>
     merged_row.category r \<in> inventory_row.category ` set inventory \<inter> set cf"
  by (induction sales) (auto simp: merged_Cons dest: rows_of_sale_fields(6))


section \<open>Cells that are NULL\<close>

lemma count_Nil [simp]: "count [] = 0"
  by (simp add: count_def)

lemma count_Cons [simp]: "count (c # col) = (if c = None then 0 else 1) + count col"
  by (simp add: count_def)

lemma count_append [simp]: "count (xs @ ys) = count xs + count ys"
  by (simp add: count_def)

lemma count_eq_0_iff: "count col = 0 \<longleftrightarrow> (\<forall>c \<in> set col. c = None)"
  by (induction col) auto

lemma count_map_notna:
  "None \<notin> f ` set xs \<Longrightarrow> count (map f (filter P xs)) = length (filter P xs)"
  by (induction xs) auto

lemma set_dropna: "set (dropna col) = {v. Some v \<in> set col}"
  by (induction col rule: dropna.induct) auto

lemma nunique_dropna: "nunique (dropna col) = card (set col - {None})"
proof -
  have "set col - {None} = Some ` set (dropna col)"
    by (auto simp: set_dropna image_iff) (metis option.exhaust)
  then have "card (set col - {None}) = card (set (dropna col))"
    by (simp add: card_image)
  then show ?thesis
    by (simp add: nunique_def card_set)
qed

lemma merged_transactionid:
  "r \<in> set (merged sales inventory customers cf) \<Longrightarrow>
     merged_row.transactionid r \<in> sales_row.transactionid ` set sales"
  by (induction sales) (auto simp: merged_Cons dest: rows_of_sale_fields(3))

section \<open>Grouping\<close>




section \<open>Key metrics and the category filter\<close>

text \<open>
  Claim C3. For every category filter, the KPI \<open>total_orders\<close> is the number of distinct
  transaction ids among the rows of the joined table whose category is selected (a NULL
  cell is not an id), and it is 0 when nothing is selected. When no transaction id of the
  sales is NULL, it is the number of distinct values of the column as it stands.
\<close>

theorem total_orders_counts_distinct_transactionids:
  "total_orders (merged sales inventory customers category_filter) =
     card (merged_row.transactionid `
       {r \<in> set (merge_customers (merge_inventory sales inventory) customers).
          merged_row.category r \<in> set category_filter} - {None})
   \<and> total_orders (merged sales inventory customers []) = 0
   \<and> (None \<notin> sales_row.transactionid ` set sales \<longrightarrow>
        total_orders (merged sales inventory customers category_filter) =
          card (merged_row.transactionid `
            {r \<in> set (merge_customers (merge_inventory sales inventory) customers).
               merged_row.category r \<in> set category_filter}))"
proof -
  let ?rows = "{r \<in> set (merge_customers (merge_inventory sales inventory) customers).
          merged_row.category r \<in> set category_filter}"
  have rows: "set (merged sales inventory customers category_filter) = ?rows"
    by (auto simp: merged_def)
  have a: "total_orders (merged sales inventory customers category_filter) =
     card (merged_row.transactionid ` ?rows - {None})"
    by (simp only: total_orders_def nunique_dropna set_map rows)
  have b: "total_orders (merged sales inventory customers []) = 0"
    by (simp add: total_orders_def nunique_def merged_def)
  have c: "total_orders (merged sales inventory customers category_filter) =
          card (merged_row.transactionid ` ?rows)"
    if "None \<notin> sales_row.transactionid ` set sales"
  proof -
    have "None \<notin> merged_row.transactionid ` ?rows"
    proof
      assume "None \<in> merged_row.transactionid ` ?rows"
      then obtain r where "r \<in> set (merged sales inventory customers category_filter)"
        and "merged_row.transactionid r = None"
        unfolding rows [symmetric] by (metis imageE)
      with merged_transactionid [of r sales inventory customers category_filter] that
      show False by simp
    qed
    then have "merged_row.transactionid ` ?rows - {None} = merged_row.transactionid ` ?rows"
      by simp
    with a show ?thesis by simp
  qed
  from a b c show ?thesis
    by blast
qed

theorem total_orders_counts_distinct_transactionids_witness:
  "None \<notin> sales_row.transactionid ` set sales_ex
   \<and> total_orders (merged sales_ex inventory_ex customers_ex [''Office'']) = 2
   \<and> total_orders (merged (null_sale # sales_ex) inventory_ex
        (\<lparr> customers_row.customerid = 7, customers_row.age = 41, customers_row.gender = ''M'',
            customers_row.location = ''Goa'' \<rparr> # customers_ex) [''Office'']) = 2"
proof -
  have h: "None \<notin> sales_row.transactionid ` set sales_ex"
    by (simp add: sales_ex_def sale_def)
  have e: "total_orders (merged sales_ex inventory_ex customers_ex [''Office'']) = 2"
    by (simp add: total_orders_def nunique_def merged_def merge_customers_def
        merge_inventory_def merge_def join_inventory_def join_customers_def sales_ex_def
        inventory_ex_def customers_ex_def sale_def)
  have n: "total_orders (merged (null_sale # sales_ex) inventory_ex
        (\<lparr> customers_row.customerid = 7, customers_row.age = 41, customers_row.gender = ''M'',
            customers_row.location = ''Goa'' \<rparr> # customers_ex) [''Office'']) = 2"
    by (simp add: total_orders_def nunique_def merged_def merge_customers_def
        merge_inventory_def merge_def join_inventory_def join_customers_def sales_ex_def
        inventory_ex_def customers_ex_def sale_def null_sale_def)
  show ?thesis
    using h e n
      total_orders_counts_distinct_transactionids [of sales_ex inventory_ex customers_ex "[''Office'']"]
    by simp
qed

text \<open>
  Claim C4. When no category of the inventory is selected, and in particular when the
  selection is empty, the three KPIs (revenue, orders, customers) are zero.
\<close>

theorem kpis_zero_when_filter_excludes_every_category:
  assumes "inventory_row.category ` set inventory \<inter> set category_filter = {}"
  shows "total_revenue (merged sales inventory customers category_filter) = 0
       \<and> total_orders (merged sales inventory customers category_filter) = 0
       \<and> total_customers (merged sales inventory customers category_filter) = 0
       \<and> total_revenue (merged sales inventory customers []) = 0
       \<and> total_orders (merged sales inventory customers []) = 0
       \<and> total_customers (merged sales inventory customers []) = 0"
proof -
  have "r \<notin> set (merged sales inventory customers category_filter)" for r
  proof
    assume "r \<in> set (merged sales inventory customers category_filter)"
    then have "merged_row.category r \<in> inventory_row.category ` set inventory \<inter> set category_filter"
      by (rule merged_subset_inventory_category)
    with assms show False by simp
  qed
  then have "merged sales inventory customers category_filter = []"
    by (cases "merged sales inventory customers category_filter") auto
  moreover have "merged sales inventory customers [] = []"
    by (simp add: merged_def)
  ultimately show ?thesis
    by (simp add: total_revenue_def total_orders_def total_customers_def nunique_def)
qed

theorem kpis_zero_when_filter_excludes_every_category_witness:
  "inventory_row.category ` set inventory_ex \<inter> set [''Garden''] = {}
   \<and> total_revenue (merged sales_ex inventory_ex customers_ex [''Garden'']) = 0
   \<and> total_orders (merged sales_ex inventory_ex customers_ex [''Garden'']) = 0
   \<and> total_customers (merged sales_ex inventory_ex customers_ex [''Garden'']) = 0"
proof -
  have h: "inventory_row.category ` set inventory_ex \<inter> set [''Garden''] = {}"
    by (simp add: inventory_ex_def)
  show ?thesis
    using h kpis_zero_when_filter_excludes_every_category [OF h, of sales_ex customers_ex]
    by simp
qed

section \<open>The join drops unmatched sales\<close>



section \<open>Datetime columns\<close>

lemma sequence_map_Inr: "(\<And>x. x \<in> set xs \<Longrightarrow> f x = Inr (g x)) \<Longrightarrow> sequence (map f xs) = Inr (map g xs)"
  by (induction xs) simp_all

lemma is_datetime64_Cons:
  "is_datetime64 (c # cs) \<longleftrightarrow> (\<exists>t. c = Datetime t) \<and> is_datetime64 cs"
  by (cases c) (simp_all add: is_datetime64_def)

lemma is_datetime64_Nil [simp]: "is_datetime64 []"
  by (simp add: is_datetime64_def)

lemma is_datetime64_iff: "is_datetime64 cs \<longleftrightarrow> (\<forall>c \<in> set cs. \<exists>t. c = Datetime t)"
  by (induction cs) (auto simp: is_datetime64_Cons)

lemma is_datetime64_filter:
  "is_datetime64 (map f xs) \<Longrightarrow> is_datetime64 (map f (filter P xs))"
  by (auto simp: is_datetime64_iff)

lemma dt_date_datetime: "is_datetime64 cs \<Longrightarrow> dt_date cs = Inr (dates cs)"
proof (induction cs)
  case Nil
  then show ?case by (simp add: dt_date_def)
next
  case (Cons c cs)
  then show ?case
    by (auto simp: dt_date_def is_datetime64_Cons)
qed

lemma set_dates: "set (dates cs) = {d. \<exists>c \<in> set cs. date_of_cell c = Inr d}"
  by (induction cs rule: dates.induct) auto

lemma dt_date_nunique_datetime:
  "is_datetime64 cs \<Longrightarrow> dt_date_nunique cs = Inr (card {d. \<exists>c \<in> set cs. date_of_cell c = Inr d})"
  by (simp add: dt_date_nunique_def dt_date_datetime nunique_def set_dates [symmetric] card_set)

lemma to_datetime_datetime:
  "is_datetime64 (map sales_row.transactiondate df) \<Longrightarrow> to_datetime parse df = Inr df"
proof -
  assume a: "is_datetime64 (map sales_row.transactiondate df)"
  have "to_datetime parse df = Inr (map (\<lambda>s. s) df)"
    unfolding to_datetime_def
  proof (rule sequence_map_Inr)
    fix s assume "s \<in> set df"
    with a obtain t where "sales_row.transactiondate s = Datetime t"
      by (auto simp: is_datetime64_iff)
    then show "(case to_datetime_cell parse (sales_row.transactiondate s) of
                  Inl e \<Rightarrow> Inl e
                | Inr c \<Rightarrow> Inr (s\<lparr>sales_row.transactiondate := c\<rparr>)) = Inr s"
      by simp
  qed
  then show ?thesis by simp
qed

lemma group_active_days:
  assumes "is_datetime64 (map sales_row.transactiondate sales)"
  shows "dt_date_nunique (map sales_row.transactiondate (filter (\<lambda>r. sales_row.customerid r = k) sales)) =
           Inr (card (active_dates sales k))"
proof -
  have "{d. \<exists>c \<in> set (map sales_row.transactiondate (filter (\<lambda>r. sales_row.customerid r = k) sales)).
            date_of_cell c = Inr d} = active_dates sales k"
    by auto
  with dt_date_nunique_datetime [OF is_datetime64_filter [OF assms]] show ?thesis
    by simp
qed

lemma active_days_agg_datetime:
  assumes "is_datetime64 (map sales_row.transactiondate sales)"
  shows "active_days_agg sales =
     Inr (map (\<lambda>c. \<lparr> repeat_customers_row.customerid = c, active_days = card (active_dates sales c) \<rparr>)
            (sort (remdups (map sales_row.customerid sales))))"
  unfolding active_days_agg_def groupby_def map_map
  by (rule sequence_map_Inr) (simp add: group_active_days [OF assms])

lemma repeat_datetime:
  assumes "is_datetime64 (map sales_row.transactiondate sales)"
  shows "repeat parse sales =
     Inr (map (\<lambda>c. \<lparr> repeat_row.customerid = c, days_active = card (active_dates sales c),
                      repeat_row.total_orders =
                        count (map sales_row.transactionid (filter (\<lambda>s. sales_row.customerid s = c) sales)) \<rparr>)
            (sort (remdups (map sales_row.customerid sales))))"
proof -
  have "sequence (map (\<lambda>(k, g).
             case dt_date_nunique (map sales_row.transactiondate g) of
               Inl e \<Rightarrow> Inl e
             | Inr n \<Rightarrow>
                 Inr \<lparr> repeat_row.customerid = k, days_active = n,
                       repeat_row.total_orders = count (map sales_row.transactionid g) \<rparr>)
            (groupby sales_row.customerid sales)) =
     Inr (map (\<lambda>c. \<lparr> repeat_row.customerid = c, days_active = card (active_dates sales c),
                      repeat_row.total_orders =
                        count (map sales_row.transactionid (filter (\<lambda>s. sales_row.customerid s = c) sales)) \<rparr>)
            (sort (remdups (map sales_row.customerid sales))))"
    unfolding groupby_def map_map
    by (rule sequence_map_Inr) (simp add: group_active_days [OF assms])
  then show ?thesis
    by (simp add: repeat_def to_datetime_datetime [OF assms])
qed

section \<open>Repeat customers\<close>

text \<open>
  Claim C8. On a sales table with a datetime column, the repeat-customer computation
  returns, for the customers of the raw sales, the number of distinct calendar dates of
  their transactions as \<open>active_days\<close>, and keeps exactly the customers with more than one
  such date: a customer with one date is not in the result, a customer with two dates is
  in it with \<open>active_days = 2\<close>.
\<close>

theorem repeat_customers_have_more_than_one_active_day:
  assumes "is_datetime64 (map sales_row.transactiondate sales)"
  shows "\<exists>df. repeat_customers sales = Inr df
     \<and> (\<forall>c n. \<lparr> repeat_customers_row.customerid = c, active_days = n \<rparr> \<in> set df \<longleftrightarrow>
           c \<in> sales_row.customerid ` set sales \<and> n = card (active_dates sales c) \<and> 1 < n)
     \<and> (\<forall>c. card (active_dates sales c) = 1 \<longrightarrow> c \<notin> repeat_customers_row.customerid ` set df)
     \<and> (\<forall>c. card (active_dates sales c) = 2 \<longrightarrow>
           \<lparr> repeat_customers_row.customerid = c, active_days = 2 \<rparr> \<in> set df)"
proof -
  let ?row = "\<lambda>c. \<lparr> repeat_customers_row.customerid = c, active_days = card (active_dates sales c) \<rparr>"
  let ?df = "filter (\<lambda>r. 1 < active_days r) (map ?row (sort (remdups (map sales_row.customerid sales))))"
  have eq: "repeat_customers sales = Inr ?df"
    by (simp add: repeat_customers_def active_days_agg_datetime [OF assms])
  have mem: "\<lparr> repeat_customers_row.customerid = c, active_days = n \<rparr> \<in> set ?df \<longleftrightarrow>
           c \<in> sales_row.customerid ` set sales \<and> n = card (active_dates sales c) \<and> 1 < n" for c n
    by auto
  have one: "c \<notin> repeat_customers_row.customerid ` set ?df" if "card (active_dates sales c) = 1" for c
    using that by auto
  have two: "\<lparr> repeat_customers_row.customerid = c, active_days = 2 \<rparr> \<in> set ?df"
    if "card (active_dates sales c) = 2" for c
  proof -
    have "active_dates sales c \<noteq> {}"
    proof
      assume "active_dates sales c = {}"
      then have "card (active_dates sales c) = 0"
        by (simp only: card.empty)
      with that show False by simp
    qed
    then have "c \<in> sales_row.customerid ` set sales" by auto
    with that show ?thesis by (simp add: mem)
  qed
  show ?thesis
    using eq mem one two by blast
qed

theorem repeat_customers_have_more_than_one_active_day_witness:
  "is_datetime64 (map sales_row.transactiondate repeat_ex)
   \<and> repeat_customers repeat_ex = Inr [\<lparr> repeat_customers_row.customerid = 1, active_days = 2 \<rparr>]"
proof -
  have h: "is_datetime64 (map sales_row.transactiondate repeat_ex)"
    by (simp add: repeat_ex_def sale_def stamp_def is_datetime64_def)
  have e: "repeat_customers repeat_ex = Inr [\<lparr> repeat_customers_row.customerid = 1, active_days = 2 \<rparr>]"
    by (simp add: repeat_customers_def active_days_agg_def groupby_def dt_date_nunique_def
        dt_date_def nunique_def repeat_ex_def sale_def stamp_def)
  show ?thesis
    using h e repeat_customers_have_more_than_one_active_day [OF h] by simp
qed

section \<open>Loyalty\<close>

text \<open>
  Claim C10. On a sales table whose \<^verbatim>\<open>transactiondate\<close> column has datetime type,
  the conversion of the loyalty copy changes nothing, and the distinct-date count of the
  loyalty series (\<open>days_active\<close>) is the one of the repeat-customer metric
  (\<open>active_days\<close>), customer by customer.
\<close>

theorem active_days_and_days_active_agree:
  assumes "is_datetime64 (map sales_row.transactiondate sales)"
  shows "\<exists>df rep. active_days_agg sales = Inr df \<and> repeat parse sales = Inr rep
           \<and> map (\<lambda>r. (repeat_customers_row.customerid r, active_days r)) df =
             map (\<lambda>r. (repeat_row.customerid r, days_active r)) rep"
  by (simp add: active_days_agg_datetime [OF assms] repeat_datetime [OF assms] comp_def)

theorem active_days_and_days_active_agree_witness:
  "is_datetime64 (map sales_row.transactiondate repeat_ex)
   \<and> active_days_agg repeat_ex =
       Inr [\<lparr> repeat_customers_row.customerid = 1, active_days = 2 \<rparr>,
            \<lparr> repeat_customers_row.customerid = 2, active_days = 1 \<rparr>]
   \<and> repeat (\<lambda>s. None) repeat_ex =
       Inr [\<lparr> repeat_row.customerid = 1, days_active = 2, repeat_row.total_orders = 2 \<rparr>,
            \<lparr> repeat_row.customerid = 2, days_active = 1, repeat_row.total_orders = 2 \<rparr>]"
proof -
  have h: "is_datetime64 (map sales_row.transactiondate repeat_ex)"
    by (simp add: repeat_ex_def sale_def stamp_def is_datetime64_def)
  have a: "active_days_agg repeat_ex =
       Inr [\<lparr> repeat_customers_row.customerid = 1, active_days = 2 \<rparr>,
            \<lparr> repeat_customers_row.customerid = 2, active_days = 1 \<rparr>]"
    by (simp add: active_days_agg_def groupby_def dt_date_nunique_def
        dt_date_def nunique_def repeat_ex_def sale_def stamp_def)
  have r: "repeat (\<lambda>s. None) repeat_ex =
       Inr [\<lparr> repeat_row.customerid = 1, days_active = 2, repeat_row.total_orders = 2 \<rparr>,
            \<lparr> repeat_row.customerid = 2, days_active = 1, repeat_row.total_orders = 2 \<rparr>]"
    by (simp add: repeat_def to_datetime_def groupby_def dt_date_nunique_def
        dt_date_def nunique_def repeat_ex_def sale_def stamp_def)
  show ?thesis
    using h a r active_days_and_days_active_agree [OF h, of "\<lambda>s. None"] by simp
qed

section \<open>Customer segments\<close>

lemma customer_segments_row_iff:
  "r \<in> set (customer_segments sales) \<longleftrightarrow>
     (\<exists>c \<in> sales_row.customerid ` set sales.
        r = \<lparr> customer_segments_row.customerid = c,
              customer_segments_row.total_orders =
                count (map sales_row.transactionid (filter (\<lambda>s. sales_row.customerid s = c) sales)),
              customer_segment =
                segment (int (count (map sales_row.transactionid
                  (filter (\<lambda>s. sales_row.customerid s = c) sales)))) \<rparr>)"
  by (auto simp: customer_segments_def groupby_def image_iff)

lemma customer_segments_customerids:
  "map customer_segments_row.customerid (customer_segments sales) =
     sort (remdups (map sales_row.customerid sales))"
  by (simp add: customer_segments_def groupby_def comp_def)

lemma customer_segments_Nil_iff: "customer_segments sales = [] \<longleftrightarrow> sales = []"
proof -
  have "length (customer_segments sales) = length (remdups (map sales_row.customerid sales))"
    using arg_cong [OF customer_segments_customerids [of sales], of length] by simp
  then have "customer_segments sales = [] \<longleftrightarrow> remdups (map sales_row.customerid sales) = []"
    by (metis length_0_conv)
  then show ?thesis by simp
qed

text \<open>
  Claim C2. The segment of a customer is a step function of the customer's transaction
  count in the raw sales table (the number of the customer's rows there in which
  \<^verbatim>\<open>transactionid\<close> is not NULL, which is the number of the customer's rows when
  no id is NULL): 0 gives Inactive, 1 to 5 give Low, 6 and 7 give Medium, more than 7 gives
  High; the segmentation has one row for every customer of the raw sales, with that
  count and its segment. Neither the joins nor the category filter enter.
\<close>

theorem segment_is_a_step_function_of_the_raw_sales_count:
  "segment 0 = ''Inactive''
   \<and> (\<forall>n. 1 \<le> n \<and> n \<le> 5 \<longrightarrow> segment n = ''Low'')
   \<and> (\<forall>n. n = 6 \<or> n = 7 \<longrightarrow> segment n = ''Medium'')
   \<and> (\<forall>n. 7 < n \<longrightarrow> segment n = ''High'')
   \<and> segment 1 = ''Low'' \<and> segment 5 = ''Low''
   \<and> segment 6 = ''Medium'' \<and> segment 7 = ''Medium'' \<and> segment 8 = ''High''
   \<and> customer_segments_row.customerid ` set (customer_segments sales) = sales_row.customerid ` set sales
   \<and> (\<forall>r \<in> set (customer_segments sales).
         customer_segments_row.total_orders r =
           count (map sales_row.transactionid
             (filter (\<lambda>s. sales_row.customerid s = customer_segments_row.customerid r) sales))
         \<and> customer_segment r = segment (int (customer_segments_row.total_orders r)))
   \<and> (None \<notin> sales_row.transactionid ` set sales \<longrightarrow>
        (\<forall>r \<in> set (customer_segments sales).
           customer_segments_row.total_orders r =
             length (filter (\<lambda>s. sales_row.customerid s = customer_segments_row.customerid r) sales)))"
proof -
  have ids: "customer_segments_row.customerid ` set (customer_segments sales) = sales_row.customerid ` set sales"
    using arg_cong [OF customer_segments_customerids [of sales], of set] by simp
  have rows: "\<forall>r \<in> set (customer_segments sales).
         customer_segments_row.total_orders r =
           count (map sales_row.transactionid
             (filter (\<lambda>s. sales_row.customerid s = customer_segments_row.customerid r) sales))
         \<and> customer_segment r = segment (int (customer_segments_row.total_orders r))"
    by (auto simp: customer_segments_row_iff)
  have notna: "\<forall>r \<in> set (customer_segments sales).
           customer_segments_row.total_orders r =
             length (filter (\<lambda>s. sales_row.customerid s = customer_segments_row.customerid r) sales)"
    if "None \<notin> sales_row.transactionid ` set sales"
    using rows by (simp add: count_map_notna [OF that])
  show ?thesis
    using ids rows notna by (simp add: segment_def)
qed

theorem segment_is_a_step_function_of_the_raw_sales_count_witness:
  "segment 3 = ''Low'' \<and> segment 6 = ''Medium'' \<and> segment 12 = ''High''
   \<and> None \<notin> sales_row.transactionid ` set repeat_ex
   \<and> customer_segments repeat_ex =
       [\<lparr> customer_segments_row.customerid = 1, customer_segments_row.total_orders = 2,
           customer_segment = ''Low'' \<rparr>,
        \<lparr> customer_segments_row.customerid = 2, customer_segments_row.total_orders = 2,
           customer_segment = ''Low'' \<rparr>]"
proof -
  note t = segment_is_a_step_function_of_the_raw_sales_count [of repeat_ex]
  have a: "segment 3 = ''Low''" using t by simp
  have b: "segment 6 = ''Medium''" using t by simp
  have c: "segment 12 = ''High''" using t by simp
  have n: "None \<notin> sales_row.transactionid ` set repeat_ex"
    by (simp add: repeat_ex_def sale_def)
  have d: "customer_segments repeat_ex =
       [\<lparr> customer_segments_row.customerid = 1, customer_segments_row.total_orders = 2,
           customer_segment = ''Low'' \<rparr>,
        \<lparr> customer_segments_row.customerid = 2, customer_segments_row.total_orders = 2,
           customer_segment = ''Low'' \<rparr>]"
    by (simp add: customer_segments_def groupby_def segment_def repeat_ex_def sale_def)
  show ?thesis using a b c n d by simp
qed

text \<open>
  Claim C9, as stated, fails: the count of line 101 is the number of the customer's
  cells of \<^verbatim>\<open>transactionid\<close> that are not NULL, not the number of the customer's
  rows. A sales table whose only row, of customer 7, has a NULL transaction id is not
  empty, and its segmentation has the row of customer 7 with the count 0 and the label
  Inactive.
\<close>

theorem inactive_segment_assigned_counterexample:
  "[null_sale] \<noteq> []
   \<and> customer_segments [null_sale] =
       [\<lparr> customer_segments_row.customerid = 7, customer_segments_row.total_orders = 0,
           customer_segment = ''Inactive'' \<rparr>]"
  by (simp add: customer_segments_def groupby_def segment_def null_sale_def)

text \<open>
  Claim C9, amended. For every sales table in which no transaction id is NULL, every row
  of the segmentation has a count of at least 1 and no customer is labelled Inactive; a
  sales table that is not empty gives a segmentation that is not empty. In every sales
  table, the label is Inactive exactly for the count 0, and the count is 0 exactly for a
  customer all of whose transaction ids are NULL.
\<close>

theorem inactive_segment_is_never_assigned:
  "(sales \<noteq> [] \<longrightarrow> customer_segments sales \<noteq> [])
   \<and> (None \<notin> sales_row.transactionid ` set sales \<longrightarrow>
        (\<forall>r \<in> set (customer_segments sales).
           1 \<le> customer_segments_row.total_orders r \<and> customer_segment r \<noteq> ''Inactive''))
   \<and> (\<forall>r \<in> set (customer_segments sales).
         (customer_segment r = ''Inactive'' \<longleftrightarrow> customer_segments_row.total_orders r = 0)
         \<and> (customer_segments_row.total_orders r = 0 \<longleftrightarrow>
              (\<forall>s \<in> set sales.
                 sales_row.customerid s = customer_segments_row.customerid r \<longrightarrow>
                 sales_row.transactionid s = None)))"
proof -
  have seg: "segment (int n) = ''Inactive'' \<longleftrightarrow> n = 0" for n
    by (simp add: segment_def)
  have zero: "count (map sales_row.transactionid (filter (\<lambda>s. sales_row.customerid s = c) sales)) = 0 \<longleftrightarrow>
      (\<forall>s \<in> set sales. sales_row.customerid s = c \<longrightarrow> sales_row.transactionid s = None)" for c
    by (auto simp: count_eq_0_iff)
  have a: "customer_segments sales \<noteq> []" if "sales \<noteq> []"
    using that by (simp add: customer_segments_Nil_iff)
  have c: "\<forall>r \<in> set (customer_segments sales).
         (customer_segment r = ''Inactive'' \<longleftrightarrow> customer_segments_row.total_orders r = 0)
         \<and> (customer_segments_row.total_orders r = 0 \<longleftrightarrow>
              (\<forall>s \<in> set sales.
                 sales_row.customerid s = customer_segments_row.customerid r \<longrightarrow>
                 sales_row.transactionid s = None))"
  proof
    fix r assume "r \<in> set (customer_segments sales)"
    then obtain k where k: "k \<in> sales_row.customerid ` set sales"
      and r: "r = \<lparr> customer_segments_row.customerid = k,
              customer_segments_row.total_orders =
                count (map sales_row.transactionid (filter (\<lambda>s. sales_row.customerid s = k) sales)),
              customer_segment =
                segment (int (count (map sales_row.transactionid
                  (filter (\<lambda>s. sales_row.customerid s = k) sales)))) \<rparr>"
      unfolding customer_segments_row_iff by blast
    show "(customer_segment r = ''Inactive'' \<longleftrightarrow> customer_segments_row.total_orders r = 0)
         \<and> (customer_segments_row.total_orders r = 0 \<longleftrightarrow>
              (\<forall>s \<in> set sales.
                 sales_row.customerid s = customer_segments_row.customerid r \<longrightarrow>
                 sales_row.transactionid s = None))"
      by (simp only: r customer_segments_row.simps seg zero simp_thms)
  qed
  have b: "\<forall>r \<in> set (customer_segments sales).
           1 \<le> customer_segments_row.total_orders r \<and> customer_segment r \<noteq> ''Inactive''"
    if n: "None \<notin> sales_row.transactionid ` set sales"
  proof
    fix r assume r: "r \<in> set (customer_segments sales)"
    then have "customer_segments_row.customerid r \<in> sales_row.customerid ` set sales"
      by (auto simp: customer_segments_row_iff)
    then obtain s where "s \<in> set sales"
      and "sales_row.customerid s = customer_segments_row.customerid r"
      by auto
    moreover from this n have "sales_row.transactionid s \<noteq> None"
      by (metis imageI)
    moreover from c r have "customer_segments_row.total_orders r = 0 \<longleftrightarrow>
              (\<forall>s \<in> set sales.
                 sales_row.customerid s = customer_segments_row.customerid r \<longrightarrow>
                 sales_row.transactionid s = None)"
      by simp
    ultimately have nz: "customer_segments_row.total_orders r \<noteq> 0"
      by auto
    from c r have "customer_segment r = ''Inactive'' \<longleftrightarrow> customer_segments_row.total_orders r = 0"
      by simp
    with nz show "1 \<le> customer_segments_row.total_orders r \<and> customer_segment r \<noteq> ''Inactive''"
      by simp
  qed
  from a b c show ?thesis
    by blast
qed

theorem inactive_segment_is_never_assigned_witness:
  "repeat_ex \<noteq> [] \<and> customer_segments repeat_ex \<noteq> []
   \<and> None \<notin> sales_row.transactionid ` set repeat_ex
   \<and> list_all (\<lambda>r. 1 \<le> customer_segments_row.total_orders r \<and> customer_segment r \<noteq> ''Inactive'')
        (customer_segments repeat_ex)"
proof -
  have h: "repeat_ex \<noteq> []" by (simp add: repeat_ex_def)
  have n: "None \<notin> sales_row.transactionid ` set repeat_ex"
    by (simp add: repeat_ex_def sale_def)
  show ?thesis
    using h n inactive_segment_is_never_assigned [of repeat_ex]
    by (simp add: list_all_iff)
qed

section \<open>Monthly revenue\<close>

lemma month_of_cell_datetime:
  "is_datetime64 (map sales_row.transactiondate sales) \<Longrightarrow> s \<in> set sales \<Longrightarrow>
     \<exists>m. month_of_cell (sales_row.transactiondate s) = Inr m"
  by (auto simp: is_datetime64_iff)

lemma sum_list_filter_fst_map:
  "(\<Sum>(m, s)\<leftarrow>filter (\<lambda>p. fst p = k) (map (\<lambda>s. (key s, s)) xs). f s) =
     (\<Sum>s\<leftarrow>filter (\<lambda>s. key s = k) xs. f s)"
  by (induction xs) simp_all

lemma monthly_datetime:
  assumes ne: "sales \<noteq> []"
    and dt: "is_datetime64 (map sales_row.transactiondate sales)"
    and key: "\<And>s. s \<in> set sales \<Longrightarrow> month_of_cell (sales_row.transactiondate s) = Inr (key s)"
  shows "monthly parse sales =
     Inr (map (\<lambda>m. \<lparr> monthly_row.month = m,
                      monthly_revenue =
                        (\<Sum>s\<leftarrow>filter (\<lambda>s. key s = m) sales.
                           of_int (sales_row.quantitypurchased s) * sales_row.price s) \<rparr>)
            (sort (remdups (map key sales))))"
proof -
  have wm: "with_month sales = Inr (map (\<lambda>s. (key s, s)) sales)"
    unfolding with_month_def
    by (rule sequence_map_Inr) (simp add: key)
  show ?thesis
    using ne by (simp add: monthly_def to_datetime_datetime [OF dt] wm groupby_def comp_def
        sum_list_filter_fst_map)
qed


























section \<open>The price behind the revenues\<close>

lemma total_revenue_merged:
  "total_revenue (merged sales inventory customers cf) =
     (\<Sum>s\<leftarrow>sales. of_int (sales_row.quantitypurchased s) * sales_row.price s *
        of_nat (length (rows_of_sale s inventory customers cf)))"
  by (induction sales) (simp_all add: total_revenue_def merged_Cons sum_rows_of_sale)

lemma sum_rows_of_sale_commuted:
  "(\<Sum>r\<leftarrow>rows_of_sale s inventory customers cf.
       merged_row.price_x r * of_int (merged_row.quantitypurchased r)) =
     sales_row.price s * of_int (sales_row.quantitypurchased s) *
       of_nat (length (rows_of_sale s inventory customers cf))"
  using sum_rows_of_sale [of s inventory customers cf] by (simp add: mult.commute)

lemma product_revenue_merged:
  "(\<Sum>r\<leftarrow>filter (\<lambda>r. merged_row.productname r = k) (merged sales inventory customers cf).
       merged_row.price_x r * of_int (merged_row.quantitypurchased r)) =
     (\<Sum>s\<leftarrow>sales. sales_row.price s * of_int (sales_row.quantitypurchased s) *
        of_nat (length (rows_of_sale s (filter (\<lambda>i. inventory_row.productname i = k) inventory) customers cf)))"
  by (induction sales)
    (simp_all add: merged_Cons filter_productname_rows_of_sale sum_rows_of_sale_commuted)

lemma product_perf_row_iff:
  "row \<in> set (product_perf df) \<longleftrightarrow>
     (\<exists>k \<in> merged_row.productname ` set df.
        row = \<lparr> product_perf_row.productname = k,
                product_perf_row.total_units_sold =
                  sum_list (map merged_row.quantitypurchased (filter (\<lambda>r. merged_row.productname r = k) df)),
                product_perf_row.total_revenue =
                  (\<Sum>r\<leftarrow>filter (\<lambda>r. merged_row.productname r = k) df.
                     merged_row.price_x r * of_int (merged_row.quantitypurchased r)) \<rparr>)"
  by (auto simp: product_perf_def groupby_def image_iff)

lemma total_revenue_reprice:
  "total_revenue (merged sales (map (\<lambda>i. i\<lparr>inventory_row.price := f i\<rparr>) inventory) customers cf) =
     total_revenue (merged sales inventory customers cf)"
  by (simp add: total_revenue_merged length_rows_of_sale filter_map comp_def)

text \<open>
  Claim C1, as stated, fails: the claim takes \<^verbatim>\<open>price_x\<close> for the price of the
  inventory, but the merge gives the suffix \<^verbatim>\<open>_x\<close> to the column of its left
  table, the sales. In the example the two sales have the prices 10 and 5 and the
  product has the inventory price 7: the KPI revenue and the product revenue are 25, the
  sum over the sale prices, and not 21, the sum over the inventory price; the monthly
  revenue is 25 as well.
\<close>

theorem kpi_revenue_is_not_from_inventory_price_counterexample:
  "map sales_row.price sales_ex = [10, 5] \<and> map inventory_row.price inventory_ex = [7]
   \<and> total_revenue (merged sales_ex inventory_ex customers_ex [''Office'']) = 25
   \<and> (\<Sum>r\<leftarrow>merged sales_ex inventory_ex customers_ex [''Office''].
         of_int (merged_row.quantitypurchased r) * merged_row.price_y r) = 21
   \<and> map product_perf_row.total_revenue
        (product_perf (merged sales_ex inventory_ex customers_ex [''Office''])) = [25]
   \<and> monthly (\<lambda>s. None) sales_ex = Inr [\<lparr> monthly_row.month = ''2024-03'', monthly_revenue = 25 \<rparr>]"
  by (simp add: total_revenue_def product_perf_def groupby_def merged_def merge_customers_def
      merge_inventory_def merge_def join_inventory_def join_customers_def sales_ex_def
      inventory_ex_def customers_ex_def sale_def stamp_def monthly_def to_datetime_def with_month_def
      period_M_str_def zfill_def digit_def)


text \<open>
  Claim C1, amended. The KPI revenue and the revenue of every product are computed from
  the price of the sales table, as the monthly revenue is: each sale contributes its
  quantity times its own price, once for every matching row of the inventory (in a
  selected category, and for a product row with that product name) and of the customers;
  a month's revenue is the sum of quantity times the sale's price over the sales of the
  month. The price of the inventory is not used: replacing it leaves the KPI unchanged.
\<close>

theorem kpi_and_product_revenue_use_the_sales_price:
  "total_revenue (merged sales inventory customers category_filter) =
     (\<Sum>s\<leftarrow>sales. of_int (sales_row.quantitypurchased s) * sales_row.price s *
        of_nat (length (filter (\<lambda>i. inventory_row.productid i = sales_row.productid s \<and>
                                     inventory_row.category i \<in> set category_filter) inventory) *
                length (filter (\<lambda>c. customers_row.customerid c = sales_row.customerid s) customers)))
   \<and> (\<forall>row \<in> set (product_perf (merged sales inventory customers category_filter)).
        product_perf_row.total_revenue row =
          (\<Sum>s\<leftarrow>sales. sales_row.price s * of_int (sales_row.quantitypurchased s) *
             of_nat (length (filter (\<lambda>i. inventory_row.productid i = sales_row.productid s \<and>
                                          inventory_row.category i \<in> set category_filter \<and>
                                          inventory_row.productname i = product_perf_row.productname row) inventory) *
                     length (filter (\<lambda>c. customers_row.customerid c = sales_row.customerid s) customers))))
   \<and> (sales \<noteq> [] \<and> is_datetime64 (map sales_row.transactiondate sales) \<longrightarrow>
        (\<exists>df. monthly parse sales = Inr df \<and>
           (\<forall>r \<in> set df.
              monthly_revenue r =
                (\<Sum>s\<leftarrow>filter (\<lambda>s. month_of_cell (sales_row.transactiondate s) = Inr (monthly_row.month r)) sales.
                   of_int (sales_row.quantitypurchased s) * sales_row.price s))))
   \<and> (\<forall>f. total_revenue
          (merged sales (map (\<lambda>i. i\<lparr>inventory_row.price := f i\<rparr>) inventory) customers category_filter) =
        total_revenue (merged sales inventory customers category_filter))"
proof -
  have kpi: "total_revenue (merged sales inventory customers category_filter) =
     (\<Sum>s\<leftarrow>sales. of_int (sales_row.quantitypurchased s) * sales_row.price s *
        of_nat (length (filter (\<lambda>i. inventory_row.productid i = sales_row.productid s \<and>
                                     inventory_row.category i \<in> set category_filter) inventory) *
                length (filter (\<lambda>c. customers_row.customerid c = sales_row.customerid s) customers)))"
    by (simp only: total_revenue_merged length_rows_of_sale)
  have flt: "filter (\<lambda>i. inventory_row.productid i = p \<and> inventory_row.category i \<in> set category_filter)
          (filter (\<lambda>i. inventory_row.productname i = k) inventory) =
        filter (\<lambda>i. inventory_row.productid i = p \<and> inventory_row.category i \<in> set category_filter \<and>
                    inventory_row.productname i = k) inventory" for p k
    by (simp add: conj_commute conj_left_commute)
  have perf: "\<forall>row \<in> set (product_perf (merged sales inventory customers category_filter)).
        product_perf_row.total_revenue row =
          (\<Sum>s\<leftarrow>sales. sales_row.price s * of_int (sales_row.quantitypurchased s) *
             of_nat (length (filter (\<lambda>i. inventory_row.productid i = sales_row.productid s \<and>
                                          inventory_row.category i \<in> set category_filter \<and>
                                          inventory_row.productname i = product_perf_row.productname row) inventory) *
                     length (filter (\<lambda>c. customers_row.customerid c = sales_row.customerid s) customers)))"
  proof
    fix row assume "row \<in> set (product_perf (merged sales inventory customers category_filter))"
    then obtain k where row: "product_perf_row.productname row = k"
      "product_perf_row.total_revenue row =
         (\<Sum>r\<leftarrow>filter (\<lambda>r. merged_row.productname r = k) (merged sales inventory customers category_filter).
            merged_row.price_x r * of_int (merged_row.quantitypurchased r))"
      by (auto simp: product_perf_row_iff)
    show "product_perf_row.total_revenue row =
          (\<Sum>s\<leftarrow>sales. sales_row.price s * of_int (sales_row.quantitypurchased s) *
             of_nat (length (filter (\<lambda>i. inventory_row.productid i = sales_row.productid s \<and>
                                          inventory_row.category i \<in> set category_filter \<and>
                                          inventory_row.productname i = product_perf_row.productname row) inventory) *
                     length (filter (\<lambda>c. customers_row.customerid c = sales_row.customerid s) customers)))"
      by (simp only: row product_revenue_merged length_rows_of_sale flt)
  qed
  have mon: "\<exists>df. monthly parse sales = Inr df \<and>
           (\<forall>r \<in> set df.
              monthly_revenue r =
                (\<Sum>s\<leftarrow>filter (\<lambda>s. month_of_cell (sales_row.transactiondate s) = Inr (monthly_row.month r)) sales.
                   of_int (sales_row.quantitypurchased s) * sales_row.price s))"
    if ne: "sales \<noteq> []" and dt: "is_datetime64 (map sales_row.transactiondate sales)"
  proof -
    define key :: "sales_row \<Rightarrow> string" where
      "key = (\<lambda>s. case month_of_cell (sales_row.transactiondate s) of Inr m \<Rightarrow> m | Inl e \<Rightarrow> [])"
    have key: "month_of_cell (sales_row.transactiondate s) = Inr (key s)" if "s \<in> set sales" for s
      using month_of_cell_datetime [OF dt that] by (auto simp: key_def)
    have flt: "filter (\<lambda>s. key s = m) sales =
        filter (\<lambda>s. month_of_cell (sales_row.transactiondate s) = Inr m) sales" for m
      by (rule filter_cong) (auto simp: key)
    show ?thesis
      by (simp add: monthly_datetime [OF ne dt key] flt)
  qed
  from kpi perf mon total_revenue_reprice show ?thesis
    by blast
qed

theorem kpi_and_product_revenue_use_the_sales_price_witness:
  "is_datetime64 (map sales_row.transactiondate sales_ex)
   \<and> total_revenue (merged sales_ex inventory_ex customers_ex [''Office'']) = 2 * 10 + 1 * 5
   \<and> map (\<lambda>row. (product_perf_row.productname row, product_perf_row.total_revenue row))
        (product_perf (merged sales_ex inventory_ex customers_ex [''Office''])) = [(''Pen'', 10 * 2 + 5 * 1)]
   \<and> monthly (\<lambda>s. None) sales_ex = Inr [\<lparr> monthly_row.month = ''2024-03'', monthly_revenue = 25 \<rparr>]"
proof -
  note t = kpi_and_product_revenue_use_the_sales_price [of sales_ex inventory_ex customers_ex "[''Office'']" "\<lambda>s. None"]
  have h: "is_datetime64 (map sales_row.transactiondate sales_ex)"
    by (simp add: sales_ex_def sale_def stamp_def is_datetime64_def)
  from t have k: "total_revenue (merged sales_ex inventory_ex customers_ex [''Office'']) =
     (\<Sum>s\<leftarrow>sales_ex. of_int (sales_row.quantitypurchased s) * sales_row.price s *
        of_nat (length (filter (\<lambda>i. inventory_row.productid i = sales_row.productid s \<and>
                                     inventory_row.category i \<in> set [''Office'']) inventory_ex) *
                length (filter (\<lambda>c. customers_row.customerid c = sales_row.customerid s) customers_ex)))"
    by (rule conjunct1)
  have k': "total_revenue (merged sales_ex inventory_ex customers_ex [''Office'']) = 2 * 10 + 1 * 5"
    by (subst k) (simp add: sales_ex_def inventory_ex_def customers_ex_def sale_def)
  have p: "map (\<lambda>row. (product_perf_row.productname row, product_perf_row.total_revenue row))
        (product_perf (merged sales_ex inventory_ex customers_ex [''Office''])) = [(''Pen'', 10 * 2 + 5 * 1)]"
    by (simp add: product_perf_def groupby_def merged_def merge_customers_def
      merge_inventory_def merge_def join_inventory_def join_customers_def sales_ex_def
      inventory_ex_def customers_ex_def sale_def)
  have m: "monthly (\<lambda>s. None) sales_ex = Inr [\<lparr> monthly_row.month = ''2024-03'', monthly_revenue = 25 \<rparr>]"
    by (simp add: sales_ex_def sale_def stamp_def monthly_def to_datetime_def with_month_def
      groupby_def period_M_str_def zfill_def digit_def)
  show ?thesis
    by (intro conjI h k' p m)
qed

end
